theory Spec2Isabelle
  imports Main "HOL-Library.Word" "HOL-Library.AList" "HOL-Library.Char_ord"
begin

unbundle bit_operations_syntax

section \<open>Library functions called by session.go\<close>

text \<open>
  session.go is sequential code around four library calls: \<open>crypto/rand.Read\<close>,
  \<open>base64.URLEncoding.EncodeToString\<close>, \<open>url.QueryEscape\<close> / \<open>url.QueryUnescape\<close>, and the
  cookie accessors of \<open>net/http\<close>. Go strings are byte sequences, as \<open>string\<close> is here.
  Go's \<open>int\<close> and \<open>uint\<close> are taken at 64 bits (every 64-bit target).
\<close>

type_synonym byte = "8 word"
type_synonym int64 = "64 word"

subsection \<open>The error values of Go's \<open>error\<close> interface that occur\<close>

datatype error =
    ErrNoCookie                \<comment> \<open>net/http: named cookie not present\<close>
  | EscapeError string         \<comment> \<open>net/url: malformed percent escape\<close>
  | ErrUnexpectedEOF           \<comment> \<open>io: reader ran dry before the buffer was full\<close>
  | UnknownProvide string      \<comment> \<open>session: unknown provide %q (forgotten import?)\<close>
  | NotFound                   \<comment> \<open>a provider's own error for a missing identifier\<close>
  | OtherError string          \<comment> \<open>any other error a provider may return\<close>

datatype panic = Panic string

subsection \<open>encoding/base64\<close>

definition encodeURL :: string where
  "encodeURL = ''ABCDEFGHIJKLMNOPQRSTUVWXYZabcdefghijklmnopqrstuvwxyz0123456789-_''"

text \<open>\<open>enc.encode[v & 0x3F]\<close>\<close>

definition enc :: "64 word \<Rightarrow> char" where
  "enc v = encodeURL ! unat (v AND 0x3F)"

text \<open>
  \<open>Encoding.Encode\<close> with the URL alphabet and the standard padding character: whole
  3-byte groups give 4 characters each, a remainder of 2 or 1 bytes gives a padded group.
\<close>

fun EncodeToString :: "byte list \<Rightarrow> string" where
  "EncodeToString (b0 # b1 # b2 # src) =
     (let val = push_bit 16 (ucast b0) OR push_bit 8 (ucast b1) OR ucast b2
      in enc (drop_bit 18 val) # enc (drop_bit 12 val) # enc (drop_bit 6 val) # enc val
           # EncodeToString src)"
| "EncodeToString [b0, b1] =
     (let val = push_bit 16 (ucast b0) OR push_bit 8 (ucast b1)
      in [enc (drop_bit 18 val), enc (drop_bit 12 val), enc (drop_bit 6 val), CHR ''=''])"
| "EncodeToString [b0] =
     (let val = push_bit 16 (ucast b0)
      in [enc (drop_bit 18 val), enc (drop_bit 12 val), CHR ''='', CHR ''=''])"
| "EncodeToString [] = []"

subsection \<open>net/url, mode \<open>encodeQueryComponent\<close>\<close>

definition upperhex :: string where
  "upperhex = ''0123456789ABCDEF''"

definition shouldEscape :: "char \<Rightarrow> bool" where
  "shouldEscape c =
     (if (CHR ''a'' \<le> c \<and> c \<le> CHR ''z'') \<or> (CHR ''A'' \<le> c \<and> c \<le> CHR ''Z'')
          \<or> (CHR ''0'' \<le> c \<and> c \<le> CHR ''9'') then False
      else if c \<in> set ''-_.~'' then False
      else True)"

definition escape_byte :: "char \<Rightarrow> string" where
  "escape_byte c =
     (if shouldEscape c then
        (if c = CHR '' '' then ''+''
         else [CHR ''%'', upperhex ! unat (drop_bit 4 (of_char c :: byte)),
                          upperhex ! unat ((of_char c :: byte) AND 15)])
      else [c])"

definition QueryEscape :: "string \<Rightarrow> string" where
  "QueryEscape s = concat (map escape_byte s)"

definition ishex :: "char \<Rightarrow> bool" where
  "ishex c = ((CHR ''0'' \<le> c \<and> c \<le> CHR ''9'') \<or> (CHR ''a'' \<le> c \<and> c \<le> CHR ''f'')
                \<or> (CHR ''A'' \<le> c \<and> c \<le> CHR ''F''))"

definition unhex :: "char \<Rightarrow> byte" where
  "unhex c =
     (if CHR ''0'' \<le> c \<and> c \<le> CHR ''9'' then of_char c - of_char CHR ''0''
      else if CHR ''a'' \<le> c \<and> c \<le> CHR ''f'' then of_char c - of_char CHR ''a'' + 10
      else if CHR ''A'' \<le> c \<and> c \<le> CHR ''F'' then of_char c - of_char CHR ''A'' + 10
      else 0)"

text \<open>
  \<open>unescape\<close>: Go validates every \<open>%\<close> in a first pass (a \<open>%\<close> needs two hex digits after it,
  the error carries at most three bytes from the \<open>%\<close> on) and decodes in a second one. The
  single pass below reports the same, leftmost, malformed escape and decodes the same bytes.
\<close>

fun unescape :: "string \<Rightarrow> error + string" where
  "unescape [] = Inr []"
| "unescape (c # s) =
     (if c = CHR ''%'' then
        (case s of
           h1 # h2 # rest \<Rightarrow>
             if ishex h1 \<and> ishex h2
             then map_sum id ((#) (char_of (unat (push_bit 4 (unhex h1) OR unhex h2)))) (unescape rest)
             else Inl (EscapeError (take 3 (c # s)))
         | _ \<Rightarrow> Inl (EscapeError (take 3 (c # s))))
      else map_sum id ((#) (if c = CHR ''+'' then CHR '' '' else c)) (unescape s))"

text \<open>\<open>QueryUnescape\<close> returns the pair \<open>(string, error)\<close>; the string is empty on error.\<close>

definition QueryUnescape :: "string \<Rightarrow> string \<times> error option" where
  "QueryUnescape s = (case unescape s of Inl e \<Rightarrow> ('''', Some e) | Inr t \<Rightarrow> (t, None))"

subsection \<open>crypto/rand\<close>

text \<open>
  The random reader is modelled by the bytes it will still deliver. \<open>rand.Read(b)\<close> fills
  the whole of \<open>b\<close> or returns an error; a reader that cannot deliver \<open>n\<close> more bytes fails
  and is left empty.
\<close>

definition rand_Read :: "nat \<Rightarrow> byte list \<Rightarrow> (error + byte list) \<times> byte list" where
  "rand_Read n src =
     (if length src < n then (Inl ErrUnexpectedEOF, [])
      else (Inr (take n src), drop n src))"

subsection \<open>net/http and time\<close>

text \<open>
  The transport is taken at its interface: a request is the list of cookies (name, value)
  that \<open>net/http\<close> parsed from it, a response writer is the sequence of cookies handed to
  \<open>http.SetCookie\<close> so far. Fields of \<open>http.Cookie\<close> that session.go never sets are left
  out; \<open>Expires = None\<close> is the zero time. A \<open>time.Duration\<close> counts nanoseconds.
\<close>

record Cookie =
  Name :: string
  Value :: string
  Path :: string
  Expires :: "int option"
  MaxAge :: "64 word"
  HttpOnly :: bool

type_synonym Request = "(string \<times> string) list"
type_synonym ResponseWriter = "Cookie list"
type_synonym Duration = "64 word"

definition Second :: Duration where
  "Second = 1000000000"

text \<open>\<open>r.Cookie(name)\<close>: the first cookie of that name, or \<open>ErrNoCookie\<close>.\<close>

definition Request_Cookie :: "Request \<Rightarrow> string \<Rightarrow> error + Cookie" where
  "Request_Cookie r name =
     (case map_of r name of
        None \<Rightarrow> Inl ErrNoCookie
      | Some v \<Rightarrow> Inr \<lparr>Name = name, Value = v, Path = '''', Expires = None, MaxAge = 0,
                      HttpOnly = False\<rparr>)"

definition SetCookie :: "ResponseWriter \<Rightarrow> Cookie \<Rightarrow> ResponseWriter" where
  "SetCookie w cookie = w @ [cookie]"

section \<open>session.go\<close>

subsection \<open>The state the code runs in\<close>

text \<open>
  Everything mutable outside the Manager: the data the bound provider owns, the wall clock
  (\<open>time.Now()\<close>, in seconds), the random reader, and the timers armed by
  \<open>time.AfterFunc\<close> (the callback is always \<open>manager.GC\<close>, so a timer is its delay).
  The Manager's mutex serialises the three operations; each is modelled as one atomic step.
\<close>

record 'p world =
  pdata :: 'p
  now :: int
  entropy :: "byte list"
  timers :: "Duration list"

subsection \<open>interface Provider\<close>

text \<open>
  A provider is its four methods. A method may touch the whole state (it can read the
  clock). \<open>'s\<close> is the type of session handles; \<open>None\<close> is a nil \<open>Session\<close>, and the second
  component of a result is Go's \<open>error\<close> (\<open>None\<close> is nil).
\<close>

record ('p, 's) Provider =
  SessionInit :: "string \<Rightarrow> 'p world \<Rightarrow> ('s option \<times> error option) \<times> 'p world"
  SessionRead :: "string \<Rightarrow> 'p world \<Rightarrow> ('s option \<times> error option) \<times> 'p world"
  SessionDestroy :: "string \<Rightarrow> 'p world \<Rightarrow> error option \<times> 'p world"
  SessionGC :: "int64 \<Rightarrow> 'p world \<Rightarrow> 'p world"

subsection \<open>The registry \<open>providers\<close> and \<open>Register\<close>\<close>

type_synonym ('p, 's) providers = "string \<rightharpoonup> ('p, 's) Provider"

text \<open>The \<open>provider\<close> argument is an interface value: \<open>None\<close> is nil.\<close>

definition Register ::
  "string \<Rightarrow> ('p, 's) Provider option \<Rightarrow> ('p, 's) providers \<Rightarrow> panic + ('p, 's) providers" where
  "Register name provider' providers =
     (case provider' of
        None \<Rightarrow> Inl (Panic ''session: Register provider is nil'')
      | Some p \<Rightarrow>
          if providers name \<noteq> None
          then Inl (Panic (''session: Register called twice for provider '' @ name))
          else Inr (providers(name \<mapsto> p)))"

subsection \<open>Manager\<close>

record ('p, 's) Manager =
  cookieName :: string
  provider :: "('p, 's) Provider"
  maxLifeTime :: int64

definition NewManager ::
  "('p, 's) providers \<Rightarrow> string \<Rightarrow> string \<Rightarrow> int64 \<Rightarrow> error + ('p, 's) Manager" where
  "NewManager providers provideName cookieName' maxLifeTime' =
     (case providers provideName of
        None \<Rightarrow> Inl (UnknownProvide provideName)
      | Some provider' \<Rightarrow>
          Inr \<lparr>cookieName = cookieName', provider = provider', maxLifeTime = maxLifeTime'\<rparr>)"

definition Manager_sessionID :: "('p, 's) Manager \<Rightarrow> 'p world \<Rightarrow> string \<times> 'p world" where
  "Manager_sessionID manager s =
     (case rand_Read 32 (entropy s) of
        (Inl err, src) \<Rightarrow> ('''', s\<lparr>entropy := src\<rparr>)
      | (Inr b, src) \<Rightarrow> (EncodeToString b, s\<lparr>entropy := src\<rparr>))"

text \<open>The result is the named result \<open>session\<close>, the response writer and the state.\<close>

definition Manager_SessionStart ::
  "('p, 's) Manager \<Rightarrow> ResponseWriter \<Rightarrow> Request \<Rightarrow> 'p world
     \<Rightarrow> 's option \<times> ResponseWriter \<times> 'p world" where
  "Manager_SessionStart manager w r s =
     (let c = Request_Cookie r (cookieName manager) in
      if isl c \<or> Value (projr c) = '''' then
        (let (sid, s1) = Manager_sessionID manager s;
             ((session, err), s2) = SessionInit (provider manager) sid s1;
             cookie = \<lparr>Name = cookieName manager, Value = QueryEscape sid, Path = ''/'',
                       Expires = None, MaxAge = scast (maxLifeTime manager), HttpOnly = True\<rparr>
         in (session, SetCookie w cookie, s2))
      else
        (let (sid, _) = QueryUnescape (Value (projr c));
             ((session, _), s1) = SessionRead (provider manager) sid s
         in (session, w, s1)))"

definition Manager_SessionDestroy ::
  "('p, 's) Manager \<Rightarrow> ResponseWriter \<Rightarrow> Request \<Rightarrow> 'p world \<Rightarrow> ResponseWriter \<times> 'p world" where
  "Manager_SessionDestroy manager w r s =
     (let c = Request_Cookie r (cookieName manager) in
      if isl c \<or> Value (projr c) = '''' then (w, s)
      else
        (let (_, s1) = SessionDestroy (provider manager) (Value (projr c)) s;
             expiration = now s1;
             cookie = \<lparr>Name = cookieName manager, Value = '''', Path = ''/'',
                       Expires = Some expiration, MaxAge = - 1, HttpOnly = True\<rparr>
         in (SetCookie w cookie, s1)))"

text \<open>
  One invocation of \<open>GC\<close>. \<open>time.Duration(manager.maxLifeTime)\<close> is a conversion between
  two 64-bit integer types: the timer's delay is \<open>maxLifeTime\<close> nanoseconds.
\<close>

definition Manager_GC :: "('p, 's) Manager \<Rightarrow> 'p world \<Rightarrow> 'p world" where
  "Manager_GC manager s =
     (let s1 = SessionGC (provider manager) (maxLifeTime manager) s
      in s1\<lparr>timers := timers s1 @ [scast (maxLifeTime manager)]\<rparr>)"

section \<open>The in-memory provider\<close>

text \<open>
  demo/main.go imports \<open>providers/memory\<close> and constructs its Manager on it, but the package
  is not among the sources. The spec describes it (sections 3 and 4.2); the definitions of
  this section follow those words. Keys and values are of unconstrained type there, hence
  the type variables.
\<close>

text \<open>
  Modelled from the spec: the \<open>SessionStore\<close> value container of the absent memory
  provider: an identifier, a last-access timestamp and an ordered-insertion mapping.
\<close>

record ('k, 'v) SessionStore =
  sid :: string
  lastAccessed :: int
  vals :: "('k \<times> 'v) list"

text \<open>
  Modelled from the spec: \<open>set(key, value) -> error\<close> of the absent \<open>Session\<close>
  implementation, on the store a handle refers to, at time \<open>t\<close>. The mapping keeps
  insertion order; \<open>lastAccessed\<close> is updated every time the store is read or written.
\<close>

definition SessionStore_Set ::
  "'k \<Rightarrow> 'v \<Rightarrow> int \<Rightarrow> ('k, 'v) SessionStore \<Rightarrow> error option \<times> ('k, 'v) SessionStore" where
  "SessionStore_Set key val t st =
     (None, st\<lparr>vals := AList.update key val (vals st), lastAccessed := t\<rparr>)"

text \<open>
  Modelled from the spec: \<open>get(key) -> value|absent\<close> of the absent \<open>Session\<close>
  implementation; a read refreshes \<open>lastAccessed\<close> too.
\<close>

definition SessionStore_Get ::
  "'k \<Rightarrow> int \<Rightarrow> ('k, 'v) SessionStore \<Rightarrow> 'v option \<times> ('k, 'v) SessionStore" where
  "SessionStore_Get key t st = (map_of (vals st) key, st\<lparr>lastAccessed := t\<rparr>)"

text \<open>
  Modelled from the spec: \<open>delete(key) -> error\<close> of the absent \<open>Session\<close> implementation.
\<close>

definition SessionStore_Delete ::
  "'k \<Rightarrow> int \<Rightarrow> ('k, 'v) SessionStore \<Rightarrow> error option \<times> ('k, 'v) SessionStore" where
  "SessionStore_Delete key t st =
     (None, st\<lparr>vals := AList.delete key (vals st), lastAccessed := t\<rparr>)"

text \<open>
  Modelled from the spec: the registry of the absent memory provider, a mapping from
  identifier to \<open>SessionStore\<close>. The recency ordering the spec adds only bounds the cost of
  a sweep and is not modelled.
\<close>

type_synonym ('k, 'v) memory = "(string \<times> ('k, 'v) SessionStore) list"

text \<open>
  Modelled from the spec: \<open>init\<close> of the absent memory provider creates and stores a new
  empty store under the identifier; on a collision it overwrites, which the spec admits.
  The handle returned is a reference into the registry: the identifier.
\<close>

definition memory_SessionInit ::
  "string \<Rightarrow> ('k, 'v) memory world \<Rightarrow> (string option \<times> error option) \<times> ('k, 'v) memory world" where
  "memory_SessionInit i s =
     (let st = \<lparr>sid = i, lastAccessed = now s, vals = []\<rparr>
      in ((Some i, None), s\<lparr>pdata := AList.update i st (pdata s)\<rparr>))"

text \<open>
  Modelled from the spec: \<open>read\<close> of the absent memory provider returns the existing
  store, refreshing \<open>lastAccessed\<close>, or signals NotFound.
\<close>

definition memory_SessionRead ::
  "string \<Rightarrow> ('k, 'v) memory world \<Rightarrow> (string option \<times> error option) \<times> ('k, 'v) memory world" where
  "memory_SessionRead i s =
     (case map_of (pdata s) i of
        None \<Rightarrow> ((None, Some NotFound), s)
      | Some st \<Rightarrow>
          ((Some i, None), s\<lparr>pdata := AList.update i (st\<lparr>lastAccessed := now s\<rparr>) (pdata s)\<rparr>))"

text \<open>
  Modelled from the spec: \<open>destroy\<close> of the absent memory provider removes the store,
  or signals NotFound if there is none.
\<close>

definition memory_SessionDestroy ::
  "string \<Rightarrow> ('k, 'v) memory world \<Rightarrow> error option \<times> ('k, 'v) memory world" where
  "memory_SessionDestroy i s =
     (case map_of (pdata s) i of
        None \<Rightarrow> (Some NotFound, s)
      | Some st \<Rightarrow> (None, s\<lparr>pdata := AList.delete i (pdata s)\<rparr>))"

text \<open>
  Modelled from the spec: \<open>gc\<close> of the absent memory provider removes every store whose
  \<open>lastAccessed\<close> is older than \<open>now - maxLifetime\<close>.
\<close>

definition memory_SessionGC :: "int64 \<Rightarrow> ('k, 'v) memory world \<Rightarrow> ('k, 'v) memory world" where
  "memory_SessionGC maxLifetime s =
     s\<lparr>pdata := filter (\<lambda>(i, st). \<not> lastAccessed st < now s - sint maxLifetime) (pdata s)\<rparr>"

text \<open>Modelled from the spec: the absent memory provider, as the value it registers.\<close>

definition memory :: "(('k, 'v) memory, string) Provider" where
  "memory = \<lparr>SessionInit = memory_SessionInit, SessionRead = memory_SessionRead,
             SessionDestroy = memory_SessionDestroy, SessionGC = memory_SessionGC\<rparr>"

text \<open>
  Modelled from the spec: \<open>set\<close> of the absent \<open>Session\<close> implementation through a
  handle. A handle is a reference into provider-owned state, so a mutation through it is
  visible to later reads of the same identifier; a handle whose store the provider has
  removed reaches nothing.
\<close>

definition Session_Set ::
  "string \<Rightarrow> 'k \<Rightarrow> 'v \<Rightarrow> ('k, 'v) memory world \<Rightarrow> error option \<times> ('k, 'v) memory world" where
  "Session_Set h key val s =
     (case map_of (pdata s) h of
        None \<Rightarrow> (Some NotFound, s)
      | Some st \<Rightarrow>
          (let (e, st') = SessionStore_Set key val (now s) st
           in (e, s\<lparr>pdata := AList.update h st' (pdata s)\<rparr>)))"

text \<open>
  Modelled from the spec: \<open>get\<close> of the absent \<open>Session\<close> implementation through a handle.
\<close>

definition Session_Get ::
  "string \<Rightarrow> 'k \<Rightarrow> ('k, 'v) memory world \<Rightarrow> 'v option \<times> ('k, 'v) memory world" where
  "Session_Get h key s =
     (case map_of (pdata s) h of
        None \<Rightarrow> (None, s)
      | Some st \<Rightarrow>
          (let (v, st') = SessionStore_Get key (now s) st
           in (v, s\<lparr>pdata := AList.update h st' (pdata s)\<rparr>)))"

text \<open>
  Modelled from the spec: \<open>delete\<close> of the absent \<open>Session\<close> implementation through a
  handle.
\<close>

definition Session_Delete ::
  "string \<Rightarrow> 'k \<Rightarrow> ('k, 'v) memory world \<Rightarrow> error option \<times> ('k, 'v) memory world" where
  "Session_Delete h key s =
     (case map_of (pdata s) h of
        None \<Rightarrow> (Some NotFound, s)
      | Some st \<Rightarrow>
          (let (e, st') = SessionStore_Delete key (now s) st
           in (e, s\<lparr>pdata := AList.update h st' (pdata s)\<rparr>)))"

section \<open>demo/main.go\<close>

text \<open>
  The demo registers the memory provider (the provider's \<open>init\<close>) and constructs
  \<open>globalSessions = NewManager("memory", "gosessionid", 30)\<close>. Its login handler stores
  strings under string keys.
\<close>

definition demo_providers :: "((string, string) memory, string) providers" where
  "demo_providers = Map.empty(''memory'' \<mapsto> memory)"

definition globalSessions :: "((string, string) memory, string) Manager" where
  "globalSessions = \<lparr>cookieName = ''gosessionid'', provider = memory, maxLifeTime = 30\<rparr>"

text \<open>A state with no sessions, no timers and a random reader good for one identifier.\<close>

definition fresh_world :: "(string, string) memory world" where
  "fresh_world = \<lparr>pdata = [], now = 1000, entropy = map of_nat [0..<32], timers = []\<rparr>"


text \<open>
  The identifier the Manager generates in \<open>fresh_world\<close>, the value of the cookie it issues
  for it, the request a client then sends back, and the state after the login handler has
  stored a user name through the handle.
\<close>

definition issued_sid :: string where
  "issued_sid = ''AAECAwQFBgcICQoLDA0ODxAREhMUFRYXGBkaGxwdHh8=''"

definition issued_value :: string where
  "issued_value = ''AAECAwQFBgcICQoLDA0ODxAREhMUFRYXGBkaGxwdHh8%3D''"

definition issued_cookie :: Cookie where
  "issued_cookie = \<lparr>Name = ''gosessionid'', Value = issued_value, Path = ''/'',
                    Expires = None, MaxAge = 30, HttpOnly = True\<rparr>"

definition returning_request :: Request where
  "returning_request = [(''gosessionid'', issued_value)]"

definition started_world :: "(string, string) memory world" where
  "started_world =
     \<lparr>pdata = [(issued_sid, \<lparr>sid = issued_sid, lastAccessed = 1000, vals = []\<rparr>)],
      now = 1000, entropy = [], timers = []\<rparr>"

definition logged_in_world :: "(string, string) memory world" where
  "logged_in_world =
     \<lparr>pdata = [(issued_sid,
                \<lparr>sid = issued_sid, lastAccessed = 1000, vals = [(''username'', ''bob'')]\<rparr>)],
      now = 1000, entropy = [], timers = []\<rparr>"

definition expired_cookie :: Cookie where
  "expired_cookie = \<lparr>Name = ''gosessionid'', Value = '''', Path = ''/'',
                     Expires = Some 1000, MaxAge = - 1, HttpOnly = True\<rparr>"

section \<open>Properties of the library functions\<close>















section \<open>The demo run, evaluated\<close>

lemma fresh_sessionID:
  "Manager_sessionID globalSessions fresh_world = (issued_sid, fresh_world\<lparr>entropy := []\<rparr>)"
  by code_simp

lemma fresh_SessionInit:
  "SessionInit (provider globalSessions) issued_sid (fresh_world\<lparr>entropy := []\<rparr>)
     = ((Some issued_sid, None), started_world)"
  by code_simp

lemma fresh_SessionStart:
  "Manager_SessionStart globalSessions [] [] fresh_world
     = (Some issued_sid, [issued_cookie], started_world)"
  by code_simp

lemma started_Set:
  "Session_Set issued_sid ''username'' ''bob'' started_world = (None, logged_in_world)"
  by code_simp

lemma issued_value_escape: "QueryEscape issued_sid = issued_value"
  by code_simp

lemma issued_value_unescape: "QueryUnescape issued_value = (issued_sid, None)"
  by code_simp

lemma logged_in_SessionDestroy:
  "Manager_SessionDestroy globalSessions [] returning_request logged_in_world
     = ([expired_cookie], logged_in_world)"
  by code_simp

lemma logged_in_destroy_value:
  "SessionDestroy (provider globalSessions) issued_value logged_in_world
     = (Some NotFound, logged_in_world)"
  by code_simp

lemma logged_in_destroy_sid:
  "SessionDestroy (provider globalSessions) issued_sid logged_in_world
     = (None, logged_in_world\<lparr>pdata := []\<rparr>)"
  by code_simp

lemma logged_in_SessionStart:
  "Manager_SessionStart globalSessions [] returning_request logged_in_world
     = (Some issued_sid, [], logged_in_world)"
  by code_simp

lemma logged_in_Get:
  "fst (Session_Get issued_sid ''username'' logged_in_world) = Some ''bob''"
  by code_simp





lemma fresh_SessionRead_stale:
  "SessionRead (provider globalSessions) issued_sid fresh_world
     = ((None, Some NotFound), fresh_world)"
  by code_simp

lemma logged_in_GC:
  "Manager_GC globalSessions logged_in_world = logged_in_world\<lparr>timers := [30]\<rparr>"
  by code_simp

lemma Manager_GC_unfold:
  "Manager_GC manager s =
     (SessionGC (provider manager) (maxLifeTime manager) s)
       \<lparr>timers := timers (SessionGC (provider manager) (maxLifeTime manager) s)
                    @ [maxLifeTime manager]\<rparr>"
  by (simp add: Manager_GC_def Let_def)

lemma SessionDestroy_raw_value:
  assumes "map_of r (cookieName manager) = Some v" and "v \<noteq> ''''"
  shows "snd (Manager_SessionDestroy manager w r s) = snd (SessionDestroy (provider manager) v s)"
  using assms
  by (simp add: Manager_SessionDestroy_def Request_Cookie_def split: prod.splits)

section \<open>The claims\<close>

subsection \<open>Destroying a session\<close>

text \<open>
  C1. The claim: for a cookie whose value is the URL-escaped form of an identifier,
  \<open>SessionDestroy\<close> destroys that identifier, so that a later \<open>SessionStart\<close> with the same
  cookie no longer sees the stored values. The code hands the provider the raw cookie
  value instead (\<open>SessionStart\<close> unescapes it, \<open>SessionDestroy\<close> does not). Every generated
  identifier ends in the padding \<open>=\<close>, which \<open>QueryEscape\<close> turns into \<open>%3D\<close>, so the two
  differ for every session the Manager itself issued. The run: a first request starts a
  session and receives the cookie, the handler stores a user name, the client asks for
  destruction with that cookie and then starts again with it. The provider is asked to
  destroy the escaped value and reports NotFound, the session stays in the registry, and
  the later \<open>SessionStart\<close> still yields the handle through which the user name is read.
  Destroying the unescaped identifier would have emptied the registry.
\<close>

theorem SessionDestroy_passes_escaped_value:
  "Manager_SessionStart globalSessions [] [] fresh_world
     = (Some issued_sid, [issued_cookie], started_world) \<and>
   QueryEscape issued_sid = issued_value \<and>
   QueryUnescape issued_value = (issued_sid, None) \<and>
   Session_Set issued_sid ''username'' ''bob'' started_world = (None, logged_in_world) \<and>
   Manager_SessionDestroy globalSessions [] returning_request logged_in_world
     = ([expired_cookie], logged_in_world) \<and>
   SessionDestroy (provider globalSessions) issued_value logged_in_world
     = (Some NotFound, logged_in_world) \<and>
   SessionDestroy (provider globalSessions) issued_sid logged_in_world
     = (None, logged_in_world\<lparr>pdata := []\<rparr>) \<and>
   Manager_SessionStart globalSessions [] returning_request logged_in_world
     = (Some issued_sid, [], logged_in_world) \<and>
   fst (Session_Get issued_sid ''username'' logged_in_world) = Some ''bob''"
  by (intro conjI fresh_SessionStart issued_value_escape issued_value_unescape started_Set
      logged_in_SessionDestroy logged_in_destroy_value logged_in_destroy_sid
      logged_in_SessionStart logged_in_Get)

text \<open>
  C8. With the cookie absent or empty, \<open>SessionDestroy\<close> returns the response writer and
  the whole state as they were, whatever the provider: no provider method ran (a provider
  that counted its calls in its data would show none) and no cookie was set.
\<close>

theorem SessionDestroy_without_cookie_noop:
  assumes "map_of r (cookieName manager) = None \<or> map_of r (cookieName manager) = Some ''''"
  shows "Manager_SessionDestroy manager w r s = (w, s)"
  using assms by (auto simp: Manager_SessionDestroy_def Request_Cookie_def)

text \<open>C8, at the demo's Manager: a request without cookies, a state holding a session.\<close>

theorem SessionDestroy_without_cookie_noop_witness:
  "(map_of ([] :: Request) (cookieName globalSessions) = None \<or>
    map_of ([] :: Request) (cookieName globalSessions) = Some '''') \<and>
   Manager_SessionDestroy globalSessions [issued_cookie] [] logged_in_world
     = ([issued_cookie], logged_in_world)"
proof -
  have h: "map_of ([] :: Request) (cookieName globalSessions) = None \<or>
           map_of ([] :: Request) (cookieName globalSessions) = Some ''''"
    by simp
  from SessionDestroy_without_cookie_noop [OF h]
  have "Manager_SessionDestroy globalSessions [issued_cookie] [] logged_in_world
          = ([issued_cookie], logged_in_world)" .
  with h show ?thesis by blast
qed

subsection \<open>Starting a session\<close>



text \<open>
  C9. With a non-empty cookie of the Manager's name in the request, \<open>SessionStart\<close>
  returns the response writer as it was: no cookie is set on the read path.
\<close>

theorem SessionStart_with_cookie_sets_none:
  assumes "map_of r (cookieName manager) = Some v" and "v \<noteq> ''''"
  shows "fst (snd (Manager_SessionStart manager w r s)) = w"
  using assms
  by (simp add: Manager_SessionStart_def Request_Cookie_def split: prod.splits)

text \<open>C9, at the demo's returning request.\<close>

theorem SessionStart_with_cookie_sets_none_witness:
  "map_of returning_request (cookieName globalSessions) = Some issued_value \<and>
   issued_value \<noteq> '''' \<and>
   fst (snd (Manager_SessionStart globalSessions [] returning_request logged_in_world)) = []"
proof -
  have h1: "map_of returning_request (cookieName globalSessions) = Some issued_value"
    by (simp add: returning_request_def globalSessions_def)
  have h2: "issued_value \<noteq> ''''"
    by (simp add: issued_value_def)
  from SessionStart_with_cookie_sets_none [OF h1 h2]
  have "fst (snd (Manager_SessionStart globalSessions [] returning_request logged_in_world)) = []" .
  with h1 h2 show ?thesis by blast
qed

text \<open>
  C10. \<open>SessionStart\<close> has no error result. On the read path the identifier is the
  unescaped cookie value, or the empty string when unescaping fails; whatever error
  \<open>err\<close> the provider returns with its handle, the result is that handle (nil included),
  the response writer untouched and the state the provider left: no fallback to a new
  session, no cookie. On the new-session path the handle and state are those of
  \<open>SessionInit\<close>, whatever its error.
\<close>

theorem SessionStart_discards_errors:
  "(map_of r (cookieName manager) = Some v \<and> v \<noteq> '''' \<and>
    SessionRead (provider manager) (case unescape v of Inl e \<Rightarrow> '''' | Inr i \<Rightarrow> i) s
      = ((session, err), s1)
    \<longrightarrow> Manager_SessionStart manager w r s = (session, w, s1)) \<and>
   ((map_of r' (cookieName manager) = None \<or> map_of r' (cookieName manager) = Some '''') \<and>
    Manager_sessionID manager s = (i', s0) \<and>
    SessionInit (provider manager) i' s0 = ((session', err'), s2)
    \<longrightarrow> fst (Manager_SessionStart manager w r' s) = session' \<and>
        snd (snd (Manager_SessionStart manager w r' s)) = s2)"
  by (auto simp: Manager_SessionStart_def Request_Cookie_def QueryUnescape_def
      split: sum.splits prod.splits)

text \<open>
  C10, at a stale cookie: the demo's provider holds no session, reports NotFound and
  returns a nil handle, which is what \<open>SessionStart\<close> returns.
\<close>

theorem SessionStart_discards_errors_witness:
  "map_of returning_request (cookieName globalSessions) = Some issued_value \<and>
   issued_value \<noteq> '''' \<and>
   SessionRead (provider globalSessions)
     (case unescape issued_value of Inl e \<Rightarrow> '''' | Inr i \<Rightarrow> i) fresh_world
     = ((None, Some NotFound), fresh_world) \<and>
   Manager_SessionStart globalSessions [] returning_request fresh_world
     = (None, [], fresh_world) \<and>
   (map_of ([] :: Request) (cookieName globalSessions) = None \<or>
    map_of ([] :: Request) (cookieName globalSessions) = Some '''') \<and>
   Manager_sessionID globalSessions fresh_world = (issued_sid, fresh_world\<lparr>entropy := []\<rparr>) \<and>
   SessionInit (provider globalSessions) issued_sid (fresh_world\<lparr>entropy := []\<rparr>)
     = ((Some issued_sid, None), started_world) \<and>
   fst (Manager_SessionStart globalSessions [] [] fresh_world) = Some issued_sid \<and>
   snd (snd (Manager_SessionStart globalSessions [] [] fresh_world)) = started_world"
proof -
  have h1: "map_of returning_request (cookieName globalSessions) = Some issued_value"
    by (simp add: returning_request_def globalSessions_def)
  have h2: "issued_value \<noteq> ''''"
    by (simp add: issued_value_def)
  have u: "(case unescape issued_value of Inl e \<Rightarrow> '''' | Inr i \<Rightarrow> i) = issued_sid"
    using issued_value_unescape by (simp add: QueryUnescape_def split: sum.splits)
  have h3: "SessionRead (provider globalSessions)
              (case unescape issued_value of Inl e \<Rightarrow> '''' | Inr i \<Rightarrow> i) fresh_world
              = ((None, Some NotFound), fresh_world)"
    by (simp only: u fresh_SessionRead_stale)
  have h4: "map_of ([] :: Request) (cookieName globalSessions) = None \<or>
            map_of ([] :: Request) (cookieName globalSessions) = Some ''''"
    by simp
  note c = SessionStart_discards_errors
    [of returning_request globalSessions issued_value fresh_world None "Some NotFound"
      fresh_world "[]" "[]" issued_sid "fresh_world\<lparr>entropy := []\<rparr>" "Some issued_sid" None
      started_world]
  show ?thesis using h1 h2 h3 h4 fresh_sessionID fresh_SessionInit c by blast
qed

subsection \<open>Generating an identifier\<close>









subsection \<open>Garbage collection\<close>

text \<open>
  C3. The claim: after the provider's \<open>gc(maxLifetime)\<close>, \<open>GC\<close> schedules its next run
  after \<open>maxLifetime\<close> seconds. The demo's Manager is built with 30, which the cookie's
  \<open>MaxAge\<close> takes as seconds. \<open>GC\<close> does invoke the provider's sweep with 30, but the
  timer it arms has the delay \<open>time.Duration(30)\<close>, 30 nanoseconds, where 30 seconds are
  \<open>30 * time.Second\<close> = 30000000000 nanoseconds.
\<close>

theorem GC_rearms_after_nanoseconds:
  "maxLifeTime globalSessions = 30 \<and>
   MaxAge issued_cookie = 30 \<and>
   Manager_GC globalSessions logged_in_world
     = (SessionGC (provider globalSessions) 30 logged_in_world)\<lparr>timers := [30]\<rparr> \<and>
   timers (Manager_GC globalSessions logged_in_world) = [30] \<and>
   30 * Second = (30000000000 :: Duration)"
  by (simp add: logged_in_GC Second_def)
    (simp add: globalSessions_def issued_cookie_def logged_in_world_def memory_def
      memory_SessionGC_def)

subsection \<open>Constructing a Manager\<close>

text \<open>
  C5. \<open>NewManager\<close> returns a value, never a panic: for a name the registry does not hold,
  the error "unknown provide" carrying the name, and no Manager; for a name under which
  \<open>Register\<close> has stored a provider (or that the registry holds), a Manager with that
  provider, the given cookie name and the given lifetime.
\<close>

theorem NewManager_unknown_or_bound:
  "(providers unknown = None \<longrightarrow>
      NewManager providers unknown cn lt = Inl (UnknownProvide unknown)) \<and>
   (providers name = Some p \<longrightarrow>
      NewManager providers name cn lt =
        Inr \<lparr>cookieName = cn, provider = p, maxLifeTime = lt\<rparr>) \<and>
   (Register name' (Some p') providers0 = Inr providers' \<longrightarrow>
      NewManager providers' name' cn lt =
        Inr \<lparr>cookieName = cn, provider = p', maxLifeTime = lt\<rparr>)"
  by (auto simp: NewManager_def Register_def split: if_splits)

text \<open>
  C5, at the demo: the memory provider registers itself in the empty registry, the demo
  constructs its Manager on it; a name nobody registered gives the error.
\<close>

theorem NewManager_unknown_or_bound_witness:
  "demo_providers ''redis'' = None \<and>
   NewManager demo_providers ''redis'' ''gosessionid'' 30 = Inl (UnknownProvide ''redis'') \<and>
   demo_providers ''memory'' = Some memory \<and>
   Register ''memory'' (Some memory) Map.empty = Inr demo_providers \<and>
   NewManager demo_providers ''memory'' ''gosessionid'' 30 = Inr globalSessions"
proof -
  have h1: "demo_providers ''redis'' = None"
    by (simp add: demo_providers_def)
  have h2: "demo_providers ''memory'' = Some memory"
    by (simp add: demo_providers_def)
  have h3: "Register ''memory'' (Some memory) Map.empty = Inr demo_providers"
    by (simp add: Register_def demo_providers_def)
  have g: "globalSessions = \<lparr>cookieName = ''gosessionid'', provider = memory, maxLifeTime = 30\<rparr>"
    by (simp add: globalSessions_def)
  note c = NewManager_unknown_or_bound
    [of demo_providers "''redis''" "''gosessionid''" 30 "''memory''" memory
      "''memory''" memory Map.empty demo_providers]
  show ?thesis using h1 h2 h3 c unfolding g by blast
qed

subsection \<open>The session handle\<close>

text \<open>
  C7. On the store of a session, whatever its values before: \<open>Get\<close> of a key after \<open>Set\<close>
  of that key to \<open>v\<close> returns \<open>v\<close>, and \<open>Get\<close> of a key after \<open>Delete\<close> of that key returns
  absent. The same holds through a handle whose store is in the provider's registry.
\<close>

theorem Session_Set_Get_Delete_roundtrip:
  "fst (SessionStore_Get k t' (snd (SessionStore_Set k v t st))) = Some v \<and>
   fst (SessionStore_Get k t' (snd (SessionStore_Delete k t st))) = None \<and>
   (map_of (pdata s) h = Some st' \<longrightarrow>
      fst (Session_Get h k (snd (Session_Set h k v s))) = Some v \<and>
      fst (Session_Get h k (snd (Session_Delete h k s))) = None)"
  by (simp add: SessionStore_Get_def SessionStore_Set_def SessionStore_Delete_def
      Session_Get_def Session_Set_def Session_Delete_def update_conv' delete_conv')

text \<open>C7, at the demo's session after the login handler has stored the user name.\<close>

theorem Session_Set_Get_Delete_roundtrip_witness:
  "map_of (pdata logged_in_world) issued_sid
     = Some \<lparr>sid = issued_sid, lastAccessed = 1000, vals = [(''username'', ''bob'')]\<rparr> \<and>
   fst (Session_Get issued_sid ''username''
         (snd (Session_Set issued_sid ''username'' ''eve'' logged_in_world))) = Some ''eve'' \<and>
   fst (Session_Get issued_sid ''username''
         (snd (Session_Delete issued_sid ''username'' logged_in_world))) = None"
proof -
  have h: "map_of (pdata logged_in_world) issued_sid
             = Some \<lparr>sid = issued_sid, lastAccessed = 1000, vals = [(''username'', ''bob'')]\<rparr>"
    by (simp add: logged_in_world_def)
  note c = Session_Set_Get_Delete_roundtrip
    [of "''username''" 0 "''eve''" 0 "\<lparr>sid = '''', lastAccessed = 0, vals = []\<rparr>"
      logged_in_world issued_sid]
  show ?thesis using h c by blast
qed

end
